theory Spec2Isabelle
  imports Complex_Main
begin

section \<open>JavaScript numbers\<close>

text \<open>
  The TypeScript type \<open>number\<close> is modelled as the reals extended by the three special
  values of IEEE arithmetic. Finite values are exact reals: rounding, overflow of a finite
  operation to an infinity and the sign of zero are not modelled. The operations below
  follow the IEEE rules for the special values (\<open>NaN\<close> is contagious and compares false
  with everything, \<open>Infinity - Infinity\<close> and \<open>0 * Infinity\<close> are \<open>NaN\<close>); a division by
  zero treats the divisor as \<open>+0\<close>. The properties proved for the claims say of a
  product, a quotient or a difference only what holds of the rounded operation as well:
  its sign, its order with respect to the operands, or its value where that is exact.
\<close>

datatype number = NaN | NegInf | Fin real | PosInf

fun isNaN :: "number \<Rightarrow> bool" where
  "isNaN NaN = True"
| "isNaN _ = False"

text \<open>\<open>a === b\<close> on numbers.\<close>

fun js_eq :: "number \<Rightarrow> number \<Rightarrow> bool" where
  "js_eq NaN _ = False"
| "js_eq _ NaN = False"
| "js_eq a b = (a = b)"

text \<open>\<open>a < b\<close> on numbers; \<open>a <= b\<close> and \<open>a >= b\<close> follow.\<close>

fun js_lt :: "number \<Rightarrow> number \<Rightarrow> bool" where
  "js_lt NaN _ = False"
| "js_lt _ NaN = False"
| "js_lt (Fin x) (Fin y) = (x < y)"
| "js_lt NegInf NegInf = False"
| "js_lt NegInf _ = True"
| "js_lt _ NegInf = False"
| "js_lt PosInf _ = False"
| "js_lt _ PosInf = True"

definition js_le :: "number \<Rightarrow> number \<Rightarrow> bool" where
  "js_le a b = (js_lt a b \<or> js_eq a b)"


text \<open>\<open>Math.abs\<close>, \<open>Math.floor\<close> and unary minus.\<close>

fun js_abs :: "number \<Rightarrow> number" where
  "js_abs NaN = NaN"
| "js_abs NegInf = PosInf"
| "js_abs PosInf = PosInf"
| "js_abs (Fin x) = Fin \<bar>x\<bar>"

fun js_floor :: "number \<Rightarrow> number" where
  "js_floor (Fin x) = Fin (of_int \<lfloor>x\<rfloor>)"
| "js_floor v = v"

fun js_neg :: "number \<Rightarrow> number" where
  "js_neg NaN = NaN"
| "js_neg NegInf = PosInf"
| "js_neg PosInf = NegInf"
| "js_neg (Fin x) = Fin (- x)"

fun js_add :: "number \<Rightarrow> number \<Rightarrow> number" where
  "js_add NaN _ = NaN"
| "js_add _ NaN = NaN"
| "js_add (Fin x) (Fin y) = Fin (x + y)"
| "js_add PosInf NegInf = NaN"
| "js_add NegInf PosInf = NaN"
| "js_add PosInf _ = PosInf"
| "js_add NegInf _ = NegInf"
| "js_add _ PosInf = PosInf"
| "js_add _ NegInf = NegInf"

definition js_sub :: "number \<Rightarrow> number \<Rightarrow> number" where
  "js_sub a b = js_add a (js_neg b)"

text \<open>The infinity with the sign of a real; zero counts as positive.\<close>

definition signed_inf :: "real \<Rightarrow> number" where
  "signed_inf s = (if s < 0 then NegInf else PosInf)"

fun js_mul :: "number \<Rightarrow> number \<Rightarrow> number" where
  "js_mul NaN _ = NaN"
| "js_mul _ NaN = NaN"
| "js_mul (Fin x) (Fin y) = Fin (x * y)"
| "js_mul PosInf (Fin y) = (if y = 0 then NaN else signed_inf y)"
| "js_mul NegInf (Fin y) = (if y = 0 then NaN else signed_inf (- y))"
| "js_mul (Fin x) PosInf = (if x = 0 then NaN else signed_inf x)"
| "js_mul (Fin x) NegInf = (if x = 0 then NaN else signed_inf (- x))"
| "js_mul PosInf PosInf = PosInf"
| "js_mul NegInf NegInf = PosInf"
| "js_mul PosInf NegInf = NegInf"
| "js_mul NegInf PosInf = NegInf"

fun js_div :: "number \<Rightarrow> number \<Rightarrow> number" where
  "js_div NaN _ = NaN"
| "js_div _ NaN = NaN"
| "js_div (Fin x) (Fin y) =
     (if y = 0 then (if x = 0 then NaN else signed_inf x) else Fin (x / y))"
| "js_div (Fin x) _ = Fin 0"
| "js_div PosInf (Fin y) = signed_inf y"
| "js_div NegInf (Fin y) = signed_inf (- y)"
| "js_div _ _ = NaN"


text \<open>\<open>Number.MAX_VALUE\<close>, the largest finite double.\<close>

definition MAX_VALUE :: real where
  "MAX_VALUE = (2 ^ 53 - 1) * 2 ^ 971"

section \<open>AxisHelper: domain normalisation\<close>

text \<open>\<open>NumberRange\<close>, the \<open>{min, max}\<close> pair of funnelChart.ts.\<close>

record NumberRange =
  min_val :: number
  max_val :: number

text \<open>\<open>export var fallBackDomain = [0, 10]\<close>.\<close>

definition fallBackDomain :: "number list" where
  "fallBackDomain = [Fin 0, Fin 10]"

text \<open>
  \<open>normalizeLinearDomain\<close> (funnelChart.ts, lines 1256 to 1280). The source updates the
  record in place and returns it; the model returns the updated record. In the third
  branch \<open>domain.max\<close> is still the original bound when it is tested and scaled.
\<close>

definition normalizeLinearDomain :: "NumberRange \<Rightarrow> NumberRange" where
  "normalizeLinearDomain domain =
     (if isNaN (min_val domain) \<or> isNaN (max_val domain) then
        domain\<lparr>min_val := fallBackDomain ! 0, max_val := fallBackDomain ! 1\<rparr>
      else if js_eq (min_val domain) (Fin 0) \<and> js_eq (max_val domain) (Fin 0) then
        domain\<lparr>max_val := fallBackDomain ! 1\<rparr>
      else if js_eq (min_val domain) (max_val domain) then
        domain\<lparr>min_val := (if js_lt (min_val domain) (Fin 0)
                             then js_mul (min_val domain) (Fin 1.2)
                             else js_mul (min_val domain) (Fin 0.8)),
                 max_val := (if js_lt (max_val domain) (Fin 0)
                             then js_mul (max_val domain) (Fin 0.8)
                             else js_mul (max_val domain) (Fin 1.2))\<rparr>
      else if js_lt (js_abs (min_val domain)) (Fin 0.0001)
              \<and> js_lt (js_div (min_val domain) (js_sub (max_val domain) (min_val domain)))
                       (Fin 0.0001)
      then domain\<lparr>min_val := Fin 0\<rparr>
      else domain)"

section \<open>AxisHelper: tick counts\<close>

text \<open>
  \<open>getRecommendedNumberOfTicksForXAxis\<close> and \<open>getRecommendedNumberOfTicksForYAxis\<close>
  (lines 1089 to 1105). A \<open>NaN\<close> width fails both comparisons and gives 8.
\<close>

definition getRecommendedNumberOfTicksForXAxis :: "number \<Rightarrow> number" where
  "getRecommendedNumberOfTicksForXAxis availableWidth =
     (if js_lt availableWidth (Fin 250) then Fin 3
      else if js_lt availableWidth (Fin 500) then Fin 5
      else Fin 8)"

definition getRecommendedNumberOfTicksForYAxis :: "number \<Rightarrow> number" where
  "getRecommendedNumberOfTicksForYAxis availableWidth =
     (if js_lt availableWidth (Fin 150) then Fin 3
      else if js_lt availableWidth (Fin 300) then Fin 5
      else Fin 8)"

text \<open>\<open>IMargin\<close> and \<open>getMargin\<close> (lines 1282 to 1299).\<close>

record IMargin =
  margin_top :: number
  margin_right :: number
  margin_bottom :: number
  margin_left :: number

definition getMargin :: "number \<Rightarrow> number \<Rightarrow> number \<Rightarrow> number \<Rightarrow> IMargin" where
  "getMargin availableWidth availableHeight xMargin yMargin =
     (if js_eq (getRecommendedNumberOfTicksForXAxis (js_sub availableWidth xMargin)) (Fin 0)
         \<or> js_eq (getRecommendedNumberOfTicksForYAxis (js_sub availableHeight yMargin)) (Fin 0)
      then \<lparr>margin_top = Fin 0, margin_right = xMargin,
            margin_bottom = yMargin, margin_left = Fin 0\<rparr>
      else \<lparr>margin_top = Fin 20, margin_right = Fin 30,
            margin_bottom = Fin 40, margin_left = Fin 30\<rparr>)"

text \<open>
  The part of \<open>ValueType\<close> and \<open>DataViewMetadataColumn\<close> that \<open>hasNonIntegerData\<close> reads.
  An array entry, and the \<open>type\<close> of a column, may be missing (\<open>None\<close>); an undefined
  flag is \<open>False\<close>. The flag \<open>dateTime\<close> is the one that \<open>isDateTime\<close> reads.
\<close>

record ValueType =
  integer :: bool
  dateTime :: bool





text \<open>
  \<open>normalizeNonFiniteNumber\<close> (lines 2201 to 2210). The source returns \<open>null\<close> for
  \<open>NaN\<close>; \<open>null\<close> is \<open>None\<close> here.
\<close>

definition normalizeNonFiniteNumber :: "number \<Rightarrow> number option" where
  "normalizeNonFiniteNumber v =
     (if isNaN v then None
      else if js_eq v PosInf then Some (Fin MAX_VALUE)
      else if js_eq v NegInf then Some (Fin (- MAX_VALUE))
      else Some v)"

section \<open>AxisHelper: tick values\<close>

text \<open>
  The \<open>for\<close> loop of \<open>getRecommendedTickValuesForAnOrdinalRange\<close> (lines 1181 to 1183)
  on its state: the index \<open>i\<close>, the \<open>step\<close> and the array built so far. The index and
  the step are numbers, since the step is \<open>Math.floor\<close> of a quotient and may be \<open>NaN\<close>.
  A round advances when the next index is \<open>NaN\<close> or greater than the present one; with
  a step that does not advance the source's loop never ends, which is the value \<open>None\<close>.
\<close>

definition loopAdvances :: "number \<Rightarrow> number \<Rightarrow> bool" where
  "loopAdvances i step = (isNaN (js_add i step) \<or> js_lt i (js_add i step))"

text \<open>
  The array position read by \<open>labels[i]\<close>. Every index the loop reaches from 0 is a
  whole number below the length.
\<close>

fun indexOf :: "number \<Rightarrow> nat" where
  "indexOf (Fin x) = nat \<lfloor>x\<rfloor>"
| "indexOf _ = 0"

function ordinalLoop :: "'a list \<Rightarrow> number \<Rightarrow> number \<Rightarrow> 'a list \<Rightarrow> 'a list option" where
  "ordinalLoop labels i step tickLabels =
     (if js_lt i (Fin (real (length labels))) then
        (if loopAdvances i step
         then ordinalLoop labels (js_add i step) step (tickLabels @ [labels ! indexOf i])
         else None)
      else Some tickLabels)"
  by pat_completeness auto
termination
proof (relation "measure (\<lambda>(labels, i, step, tickLabels).
          case i of
            Fin x \<Rightarrow> (case step of
                        Fin s \<Rightarrow> if 0 < s then nat \<lceil>(real (length labels) - x) / s\<rceil> + 1 else 0
                      | _ \<Rightarrow> 1)
          | NegInf \<Rightarrow> 1
          | _ \<Rightarrow> 0)")
  show "wf (measure (\<lambda>(labels :: 'a list, i, step, tickLabels :: 'a list).
          case i of
            Fin x \<Rightarrow> (case step of
                        Fin s \<Rightarrow> if 0 < s then nat \<lceil>(real (length labels) - x) / s\<rceil> + 1 else 0
                      | _ \<Rightarrow> 1)
          | NegInf \<Rightarrow> 1
          | _ \<Rightarrow> 0))"
    by simp
next
  fix labels tickLabels :: "'a list" and i step :: number
  assume lt: "js_lt i (Fin (real (length labels)))" and adv: "loopAdvances i step"
  show "((labels, js_add i step, step, tickLabels @ [labels ! indexOf i]),
         (labels, i, step, tickLabels))
        \<in> measure (\<lambda>(labels, i, step, tickLabels).
          case i of
            Fin x \<Rightarrow> (case step of
                        Fin s \<Rightarrow> if 0 < s then nat \<lceil>(real (length labels) - x) / s\<rceil> + 1 else 0
                      | _ \<Rightarrow> 1)
          | NegInf \<Rightarrow> 1
          | _ \<Rightarrow> 0)"
  proof (cases i)
    case (Fin x)
    show ?thesis
    proof (cases step)
      case (Fin s)
      with \<open>i = Fin x\<close> adv have s: "0 < s" by (simp add: loopAdvances_def)
      from lt \<open>i = Fin x\<close> have "0 < (real (length labels) - x) / s" using s by simp
      then have c: "1 \<le> \<lceil>(real (length labels) - x) / s\<rceil>" by linarith
      have "(real (length labels) - (x + s)) / s = (real (length labels) - x) / s - 1"
        using s by (simp add: field_simps)
      then have "\<lceil>(real (length labels) - (x + s)) / s\<rceil> = \<lceil>(real (length labels) - x) / s\<rceil> - 1"
        by simp
      with c s \<open>i = Fin x\<close> Fin show ?thesis by simp
    qed (use \<open>i = Fin x\<close> adv in \<open>simp_all add: loopAdvances_def\<close>)
  next
    case NegInf
    with adv show ?thesis by (cases step) (simp_all add: loopAdvances_def)
  qed (use lt in simp_all)
qed

declare ordinalLoop.simps [simp del]

text \<open>
  \<open>getRecommendedTickValuesForAnOrdinalRange\<close> (lines 1168 to 1185). \<open>maxTicks\<close> is a
  number: \<open>createScale\<close> passes a quotient that is not rounded.
\<close>

definition getRecommendedTickValuesForAnOrdinalRange :: "number \<Rightarrow> 'a list \<Rightarrow> 'a list option" where
  "getRecommendedTickValuesForAnOrdinalRange maxTicks labels =
     (if js_le maxTicks (Fin 0) then Some []
      else if js_lt (Fin (real (length labels))) maxTicks then Some labels
      else ordinalLoop labels (Fin 0)
             (js_floor (js_div (Fin (real (length labels))) maxTicks)) [])"

text \<open>
  \<open>createTrueZeroTickLabel\<close> (lines 1238 to 1245). Tick values produced by a scale are
  finite and are modelled as reals.
\<close>

definition createTrueZeroTickLabel :: "real list \<Rightarrow> real \<Rightarrow> real list" where
  "createTrueZeroTickLabel ticks epsilon =
     (if length ticks < 2 then ticks
      else let closeZero = epsilon * \<bar>ticks ! 1 - ticks ! 0\<bar>
           in map (\<lambda>tick. if \<bar>tick\<bar> \<le> closeZero then 0 else tick) ticks)"

text \<open>
  The inner loop of lines 1207 to 1209: \<open>splice(i, 1)\<close> removes the element at index \<open>i\<close>
  of the array as it is at that moment, and the bound is read again at every round.
\<close>

function spliceLoop :: "nat \<Rightarrow> 'a list \<Rightarrow> 'a list" where
  "spliceLoop i tickLabels =
     (if i < length tickLabels
      then spliceLoop (i + 1) (take i tickLabels @ drop (i + 1) tickLabels)
      else tickLabels)"
  by pat_completeness auto
termination
  by (relation "measure (\<lambda>(i, tickLabels). length tickLabels - i)") auto

declare spliceLoop.simps [simp del]

text \<open>
  The \<open>while\<close> loop of lines 1206 to 1212. The interval doubles at each round, so the
  number of rounds is bounded by the ratio of the two intervals.
\<close>

function trimLoop :: "real \<Rightarrow> real \<Rightarrow> 'a list \<Rightarrow> 'a list" where
  "trimLoop tickInterval minInterval tickLabels =
     (if tickInterval > 0 \<and> tickInterval < minInterval
      then trimLoop (tickInterval * 2) minInterval (spliceLoop 1 tickLabels)
      else tickLabels)"
  by pat_completeness auto
termination
proof (relation "measure (\<lambda>(tickInterval, minInterval, tickLabels).
                    nat \<lceil>minInterval / tickInterval\<rceil>)")
  show "wf (measure (\<lambda>(tickInterval :: real, minInterval :: real, tickLabels :: 'a list).
                    nat \<lceil>minInterval / tickInterval\<rceil>))"
    by simp
next
  fix tickInterval minInterval :: real and tickLabels :: "'a list"
  assume a: "tickInterval > 0 \<and> tickInterval < minInterval"
  define x where "x = minInterval / tickInterval"
  have x1: "1 < x" using a by (simp add: x_def)
  then have c2: "2 \<le> \<lceil>x\<rceil>" by linarith
  have "x / 2 \<le> of_int \<lceil>x\<rceil> / 2" by simp
  also have "\<dots> \<le> of_int (\<lceil>x\<rceil> - 1)" using c2 by simp
  finally have "\<lceil>x / 2\<rceil> \<le> \<lceil>x\<rceil> - 1" by (simp only: ceiling_le)
  then have "nat \<lceil>x / 2\<rceil> < nat \<lceil>x\<rceil>" using c2 by linarith
  moreover have "minInterval / (tickInterval * 2) = x / 2" by (simp add: x_def)
  ultimately have "nat \<lceil>minInterval / (tickInterval * 2)\<rceil> < nat \<lceil>minInterval / tickInterval\<rceil>"
    by (simp only: x_def)
  then show "((tickInterval * 2, minInterval, spliceLoop 1 tickLabels),
                    (tickInterval, minInterval, tickLabels))
                   \<in> measure (\<lambda>(tickInterval, minInterval, tickLabels).
                        nat \<lceil>minInterval / tickInterval\<rceil>)"
    by simp
qed

declare trimLoop.simps [simp del]

definition MinTickCount :: nat where
  "MinTickCount = 2"

text \<open>
  \<open>getRecommendedTickValuesForAQuantitativeRange\<close> (lines 1187 to 1224) in its three
  stages. The scale is represented by its \<open>ticks\<close> member, a function from the requested
  count to the generated values, \<open>None\<close> when the scale has no such member. The first
  stage is the request with its two retries (lines 1196 to 1201).
\<close>

definition requestTicks :: "(number \<Rightarrow> real list) \<Rightarrow> number \<Rightarrow> real list" where
  "requestTicks ticks maxTicks =
     (let tickLabels = ticks maxTicks;
          tickLabels = (if js_lt maxTicks (Fin (real (length tickLabels))) \<and> js_lt (Fin 1) maxTicks
                        then ticks (js_sub maxTicks (Fin 1)) else tickLabels)
      in if length tickLabels < MinTickCount then ticks (js_add maxTicks (Fin 1))
         else tickLabels)"

text \<open>
  The last stage enforces the minimum interval (lines 1204 to 1217). The optional
  \<open>minInterval\<close> is \<open>None\<close> when omitted; zero is falsy as in the source. A given
  interval is a finite real.
\<close>

definition enforceMinInterval :: "real option \<Rightarrow> real list \<Rightarrow> real list" where
  "enforceMinInterval minInterval tickLabels =
     (case minInterval of
        None \<Rightarrow> tickLabels
      | Some m \<Rightarrow>
          if m \<noteq> 0 \<and> length tickLabels > 1 then
            (let trimmed = trimLoop (tickLabels ! 1 - tickLabels ! 0) m tickLabels
             in if length trimmed = 1 then trimmed @ [trimmed ! 0 + m] else trimmed)
          else tickLabels)"

text \<open>
  The whole function. Without a \<open>ticks\<close> member the source reports an assertion failure
  and returns the empty array.
\<close>

definition getRecommendedTickValuesForAQuantitativeRange ::
  "number \<Rightarrow> (number \<Rightarrow> real list) option \<Rightarrow> real option \<Rightarrow> real list"
where
  "getRecommendedTickValuesForAQuantitativeRange maxTicks scale minInterval =
     (if js_eq maxTicks (Fin 0) then []
      else case scale of
             None \<Rightarrow> []
           | Some ticks \<Rightarrow>
               enforceMinInterval minInterval
                 (createTrueZeroTickLabel (requestTicks ticks maxTicks) (1 / 100000)))"

text \<open>\<open>ensureValuesInRange\<close> (lines 1517 to 1523); the assertion is left out.\<close>

definition ensureValuesInRange :: "real list \<Rightarrow> real \<Rightarrow> real \<Rightarrow> real list" where
  "ensureValuesInRange values mn mx =
     (let filteredValues = filter (\<lambda>v. v \<ge> mn \<and> v \<le> mx) values
      in if length filteredValues < 2 then [mn, mx] else filteredValues)"

text \<open>
  \<open>getRecommendedTickValuesForADateTimeRange\<close> (lines 1247 to 1254). The two-element
  domain of the scale is a pair. \<open>DateTimeSequence.calculate\<close> is not part of the
  sources: it is the parameter \<open>calculate\<close>, from the two bounds and the count to the
  times of the dates of the sequence.
\<close>

definition getRecommendedTickValuesForADateTimeRange ::
  "(real \<Rightarrow> real \<Rightarrow> number \<Rightarrow> real list) \<Rightarrow> number \<Rightarrow> real \<times> real \<Rightarrow> real list"
where
  "getRecommendedTickValuesForADateTimeRange calculate maxTicks dataDomain =
     (let tickLabels = calculate (fst dataDomain) (snd dataDomain) maxTicks
      in ensureValuesInRange tickLabels (fst dataDomain) (snd dataDomain))"

text \<open>
  A scale, as far as tick selection reads it. An ordinal scale has a domain of labels
  and no \<open>invert\<close> member; a quantitative scale has a domain of two numbers, an \<open>invert\<close>
  member and possibly a \<open>ticks\<close> member. \<open>isOrdinalScale\<close> (lines 1442 to 1444) tests for
  the missing \<open>invert\<close>; \<open>isDateTime\<close> (lines 1446 to 1448), here \<open>isDateTimeType\<close>, for
  the flag of a type that may be missing.
\<close>

datatype 'a GenericScale =
    OrdinalScale "'a list"
  | QuantitativeScale "real \<times> real" "(number \<Rightarrow> real list) option"

fun isOrdinalScale :: "'a GenericScale \<Rightarrow> bool" where
  "isOrdinalScale (OrdinalScale labels) = True"
| "isOrdinalScale (QuantitativeScale dataDomain ticks) = False"

definition isDateTimeType :: "ValueType option \<Rightarrow> bool" where
  "isDateTimeType t = (case t of None \<Rightarrow> False | Some ty \<Rightarrow> dateTime ty)"

text \<open>A tick value is a label of an ordinal domain or a number.\<close>

datatype 'a tickValue = Label 'a | Value real

text \<open>
  \<open>getRecommendedTickValues\<close> (lines 1153 to 1166). The first equation is the case
  \<open>isOrdinalScale(scale)\<close>; in the second the scale is quantitative, and an axis that is
  not scalar still reads its domain as a list of labels.
\<close>

fun getRecommendedTickValues ::
  "(real \<Rightarrow> real \<Rightarrow> number \<Rightarrow> real list) \<Rightarrow> number \<Rightarrow> 'a GenericScale \<Rightarrow> ValueType option \<Rightarrow> bool
     \<Rightarrow> real option \<Rightarrow> 'a tickValue list option"
where
  "getRecommendedTickValues calculate maxTicks (OrdinalScale labels) axisType isScalar
     minTickInterval =
     map_option (map Label) (getRecommendedTickValuesForAnOrdinalRange maxTicks labels)"
| "getRecommendedTickValues calculate maxTicks (QuantitativeScale dataDomain ticks) axisType
     isScalar minTickInterval =
     (if \<not> isScalar then
        map_option (map Value)
          (getRecommendedTickValuesForAnOrdinalRange maxTicks [fst dataDomain, snd dataDomain])
      else if isDateTimeType axisType then
        Some (map Value (getRecommendedTickValuesForADateTimeRange calculate maxTicks dataDomain))
      else
        Some (map Value
          (getRecommendedTickValuesForAQuantitativeRange maxTicks ticks minTickInterval)))"

section \<open>TextMeasurementService: tailoring a text to a width\<close>

text \<open>
  \<open>TextProperties\<close> (textMeasurementService.ts, lines 38 to 45). The text is always
  present where \<open>getTailoredTextOrDefault\<close> is concerned (the source asserts it).
\<close>

record TextProperties =
  text_val :: string
  fontFamily :: string
  fontSize :: string
  fontWeight :: "string option"
  fontStyle :: "string option"
  whiteSpace :: "string option"

text \<open>
  \<open>measureSvgTextWidth\<close> (lines 86 to 91). The canvas context is the external text
  measurer: a function from the font string and the text to a width.
\<close>

definition measureSvgTextWidth :: "(string \<Rightarrow> string \<Rightarrow> real) \<Rightarrow> TextProperties \<Rightarrow> real" where
  "measureSvgTextWidth canvasCtx textProperties =
     canvasCtx (fontSize textProperties @ '' '' @ fontFamily textProperties)
               (text_val textProperties)"

text \<open>
  \<open>String.prototype.substr(start, length)\<close> for a start that is not negative (the source
  passes 0 and 3); a negative length gives the empty string.
\<close>

definition substr :: "string \<Rightarrow> int \<Rightarrow> int \<Rightarrow> string" where
  "substr s start len = take (nat len) (drop (nat start) s)"

text \<open>
  \<open>(min + max) / 2 | 0\<close>: the quotient truncated towards zero. The conversion to 32 bits
  is the identity on the sums of two string indices.
\<close>

definition truncHalf :: "int \<Rightarrow> int" where
  "truncHalf s = (if 0 \<le> s then s div 2 else - ((- s) div 2))"

text \<open>
  The binary search of lines 221 to 234, on the state \<open>min\<close>, \<open>max\<close>, \<open>i\<close>; it returns
  the last \<open>i\<close>.
\<close>

function tailorSearch ::
  "(string \<Rightarrow> string \<Rightarrow> real) \<Rightarrow> TextProperties \<Rightarrow> string \<Rightarrow> real \<Rightarrow> int \<Rightarrow> int \<Rightarrow> int \<Rightarrow> int"
where
  "tailorSearch canvasCtx properties textWithDots maxWidth mn mx i =
     (if mn \<le> mx then
        (if maxWidth > measureSvgTextWidth canvasCtx
                         (properties\<lparr>text_val := substr textWithDots 0 (truncHalf (mn + mx))\<rparr>)
         then tailorSearch canvasCtx properties textWithDots maxWidth
                (truncHalf (mn + mx) + 1) mx (truncHalf (mn + mx))
         else if maxWidth < measureSvgTextWidth canvasCtx
                              (properties\<lparr>text_val := substr textWithDots 0 (truncHalf (mn + mx))\<rparr>)
         then tailorSearch canvasCtx properties textWithDots maxWidth
                mn (truncHalf (mn + mx) - 1) (truncHalf (mn + mx))
         else truncHalf (mn + mx))
      else i)"
  by pat_completeness auto
termination
  by (relation "measure (\<lambda>(canvasCtx, properties, textWithDots, maxWidth, mn, mx, i). nat (mx - mn + 1))")
     (auto simp: truncHalf_def)

declare tailorSearch.simps [simp del]

text \<open>
  \<open>getTailoredTextOrDefault\<close> (lines 194 to 246). The source also leaves the last
  measured prefix in \<open>properties.text\<close>; the model returns the tailored string only.
\<close>

definition getTailoredTextOrDefault ::
  "(string \<Rightarrow> string \<Rightarrow> real) \<Rightarrow> TextProperties \<Rightarrow> real \<Rightarrow> string"
where
  "getTailoredTextOrDefault canvasCtx properties maxWidth =
     (let dotsString = ''...'' in
      if length (text_val properties) = 0 then text_val properties
      else if measureSvgTextWidth canvasCtx properties < maxWidth then text_val properties
      else
        (let textWithDots = dotsString @ text_val properties;
             i = tailorSearch canvasCtx properties textWithDots maxWidth 1 (int (length textWithDots)) 3;
             width = measureSvgTextWidth canvasCtx (properties\<lparr>text_val := substr textWithDots 0 i\<rparr>);
             i = (if width > maxWidth then i - 1 else i)
         in substr textWithDots 3 (i - 3) @ dotsString))"

text \<open>
  A text measurer is monotonic in the length when a string that is not longer never
  measures wider, whatever the font.
\<close>

definition monotonicInLength :: "(string \<Rightarrow> string \<Rightarrow> real) \<Rightarrow> bool" where
  "monotonicInLength canvasCtx =
     (\<forall>font s t. length s \<le> length t \<longrightarrow> canvasCtx font s \<le> canvasCtx font t)"

text \<open>The measurer of the specification's scenario: ten pixels for every character.\<close>

definition tenPixelsPerChar :: "string \<Rightarrow> string \<Rightarrow> real" where
  "tenPixelsPerChar font s = 10 * real (length s)"

definition helloWorld :: TextProperties where
  "helloWorld = \<lparr>text_val = ''Hello World'', fontFamily = ''Arial'', fontSize = ''11px'',
                 fontWeight = None, fontStyle = None, whiteSpace = None\<rparr>"

text \<open>A result of \<open>normalizeNonFiniteNumber\<close> is a finite number: neither \<open>null\<close> nor special.\<close>

fun isFiniteNumber :: "number option \<Rightarrow> bool" where
  "isFiniteNumber (Some (Fin x)) = True"
| "isFiniteNumber _ = False"

text \<open>
  A tick generator for the retry scenario of the specification: six candidates when five
  ticks are requested over \<open>[0, 100]\<close>, five when four are requested.
\<close>

definition scenarioTicks :: "number \<Rightarrow> real list" where
  "scenarioTicks n =
     (if n = Fin 5 then [0, 20, 40, 60, 80, 100]
      else if n = Fin 4 then [0, 25, 50, 75, 100]
      else [])"

text \<open>
  A tick generator that answers every request with the ten values from 0 to 90, and a
  date sequence generator that finds no date.
\<close>

definition tenTicks :: "number \<Rightarrow> real list" where
  "tenTicks n = [0, 10, 20, 30, 40, 50, 60, 70, 80, 90]"

definition noDates :: "real \<Rightarrow> real \<Rightarrow> number \<Rightarrow> real list" where
  "noDates start finish n = []"

section \<open>Properties of domain normalisation\<close>

text \<open>
  C1 at the degenerate domain \<open>[-0.00001, -0.00001]\<close>: normalising twice is not the same
  as normalising once. The first pass widens the domain and leaves a negative minimum;
  the second pass replaces that minimum by 0, although it is three times the span, and
  returns a minimum above the maximum.
\<close>

theorem normalize_not_idempotent:
  "normalizeLinearDomain
     (normalizeLinearDomain \<lparr>min_val = Fin (- 0.00001), max_val = Fin (- 0.00001)\<rparr>)
   \<noteq> normalizeLinearDomain \<lparr>min_val = Fin (- 0.00001), max_val = Fin (- 0.00001)\<rparr>
   \<and> js_lt (min_val (normalizeLinearDomain
                \<lparr>min_val = Fin (- 0.00001), max_val = Fin (- 0.00001)\<rparr>)) (Fin 0)
   \<and> min_val (normalizeLinearDomain (normalizeLinearDomain
                \<lparr>min_val = Fin (- 0.00001), max_val = Fin (- 0.00001)\<rparr>)) = Fin 0
   \<and> js_lt (max_val (normalizeLinearDomain (normalizeLinearDomain
                \<lparr>min_val = Fin (- 0.00001), max_val = Fin (- 0.00001)\<rparr>))) (Fin 0)"
  by (simp add: normalizeLinearDomain_def js_sub_def)






text \<open>
  C6 at the domain \<open>[-0.00005, 0.00005]\<close>: the minimum is a half of the span, so
  \<open>|min| / (max - min) < 0.0001\<close> does not hold, and yet the minimum is replaced by 0.
\<close>

theorem normalize_snaps_large_negative_share:
  "normalizeLinearDomain \<lparr>min_val = Fin (- 0.00005), max_val = Fin 0.00005\<rparr>
     = \<lparr>min_val = Fin 0, max_val = Fin 0.00005\<rparr>
   \<and> \<not> (\<bar>- 0.00005\<bar> / (0.00005 - (- 0.00005)) < (0.0001 :: real))"
  by (simp add: normalizeLinearDomain_def js_sub_def)

section \<open>Properties of the tick counts\<close>

text \<open>
  C10: for every available width, \<open>NaN\<close>, zero and negative widths included, both
  recommended tick counts are 3, 5 or 8 and never 0; so \<open>getMargin\<close> never takes its
  first branch and always returns the margins 20, 30, 40, 30.
\<close>

theorem recommended_ticks_never_zero:
  "getRecommendedNumberOfTicksForXAxis w \<in> {Fin 3, Fin 5, Fin 8}
   \<and> getRecommendedNumberOfTicksForYAxis w \<in> {Fin 3, Fin 5, Fin 8}
   \<and> \<not> js_eq (getRecommendedNumberOfTicksForXAxis w) (Fin 0)
   \<and> \<not> js_eq (getRecommendedNumberOfTicksForYAxis w) (Fin 0)
   \<and> getMargin availableWidth availableHeight xMargin yMargin
       = \<lparr>margin_top = Fin 20, margin_right = Fin 30,
          margin_bottom = Fin 40, margin_left = Fin 30\<rparr>"
  by (simp add: getRecommendedNumberOfTicksForXAxis_def
        getRecommendedNumberOfTicksForYAxis_def getMargin_def)

theorem recommended_ticks_never_zero_witness:
  "getRecommendedNumberOfTicksForXAxis (Fin (- 40)) = Fin 3
   \<and> getRecommendedNumberOfTicksForYAxis (Fin (- 40)) = Fin 3
   \<and> getMargin (Fin 0) (Fin 0) (Fin 10) (Fin 10)
       = \<lparr>margin_top = Fin 20, margin_right = Fin 30,
          margin_bottom = Fin 40, margin_left = Fin 30\<rparr>"
  using recommended_ticks_never_zero [of "Fin (- 40)" "Fin 0" "Fin 0" "Fin 10" "Fin 10"]
  by (simp add: getRecommendedNumberOfTicksForXAxis_def
        getRecommendedNumberOfTicksForYAxis_def)

section \<open>Properties of the non-finite normalisation\<close>

text \<open>
  C9, as stated: every input is mapped to a finite number. This fails at \<open>NaN\<close>, which is
  mapped to \<open>null\<close>.
\<close>

theorem normalizeNonFiniteNumber_NaN_not_finite:
  "\<not> isFiniteNumber (normalizeNonFiniteNumber NaN)"
  by (simp add: normalizeNonFiniteNumber_def)

text \<open>
  C9, amended: \<open>NaN\<close> is mapped to \<open>null\<close>; every other input is mapped to a finite number
  of the same sign: positive infinity to \<open>Number.MAX_VALUE\<close>, negative infinity to
  \<open>-Number.MAX_VALUE\<close>, a finite input to itself. The result is never \<open>NaN\<close> or infinite.
\<close>

theorem normalizeNonFiniteNumber_amended:
  "normalizeNonFiniteNumber NaN = None
   \<and> (\<not> isNaN v \<longrightarrow> isFiniteNumber (normalizeNonFiniteNumber v))
   \<and> normalizeNonFiniteNumber PosInf = Some (Fin MAX_VALUE)
   \<and> normalizeNonFiniteNumber NegInf = Some (Fin (- MAX_VALUE))
   \<and> 0 < MAX_VALUE
   \<and> normalizeNonFiniteNumber (Fin x) = Some (Fin x)
   \<and> normalizeNonFiniteNumber v \<notin> {Some NaN, Some PosInf, Some NegInf}"
  by (cases v) (simp_all add: normalizeNonFiniteNumber_def MAX_VALUE_def)

theorem normalizeNonFiniteNumber_amended_witness:
  "\<not> isNaN PosInf \<and> isFiniteNumber (normalizeNonFiniteNumber PosInf)
   \<and> normalizeNonFiniteNumber (Fin (- 2)) = Some (Fin (- 2))"
  using normalizeNonFiniteNumber_amended [of PosInf "- 2"]
  by simp

section \<open>Properties of the best number of ticks\<close>




section \<open>Properties of the ordinal tick values\<close>

text \<open>
  With a positive finite step the loop ends, and it adds one label for every multiple
  of the step below the length.
\<close>

lemma ordinalLoop_finite:
  assumes "0 < s"
  shows "\<exists>r. ordinalLoop labels (Fin x) (Fin s) acc = Some r
           \<and> int (length r) = int (length acc) + max 0 \<lceil>(real (length labels) - x) / s\<rceil>"
  using assms
proof (induction labels "Fin x" "Fin s" acc arbitrary: x rule: ordinalLoop.induct)
  case (1 labels tickLabels x)
  show ?case
  proof (cases "x < real (length labels)")
    case False
    then have "(real (length labels) - x) / s \<le> 0"
      using 1(2) by (simp add: divide_le_0_iff)
    then have "\<lceil>(real (length labels) - x) / s\<rceil> \<le> 0" by (simp add: ceiling_le_iff)
    moreover have "ordinalLoop labels (Fin x) (Fin s) tickLabels = Some tickLabels"
      using False by (subst ordinalLoop.simps) simp
    ultimately show ?thesis by simp
  next
    case True
    have adv: "loopAdvances (Fin x) (Fin s)" using 1(2) by (simp add: loopAdvances_def)
    have lt: "js_lt (Fin x) (Fin (real (length labels)))" using True by simp
    have nxt: "js_add (Fin x) (Fin s) = Fin (x + s)" by simp
    from 1(1) [OF lt adv nxt 1(2)]
    obtain r where r: "ordinalLoop labels (Fin (x + s)) (Fin s) (tickLabels @ [labels ! indexOf (Fin x)]) = Some r"
      "int (length r) = int (length (tickLabels @ [labels ! indexOf (Fin x)]))
          + max 0 \<lceil>(real (length labels) - (x + s)) / s\<rceil>"
      by blast
    have "(real (length labels) - (x + s)) / s = (real (length labels) - x) / s - 1"
      using 1(2) by (simp add: field_simps)
    then have c: "\<lceil>(real (length labels) - (x + s)) / s\<rceil> = \<lceil>(real (length labels) - x) / s\<rceil> - 1"
      by simp
    have "0 < (real (length labels) - x) / s" using True 1(2) by simp
    then have "1 \<le> \<lceil>(real (length labels) - x) / s\<rceil>" by linarith
    with c r(2) have "int (length r) = int (length tickLabels) + max 0 \<lceil>(real (length labels) - x) / s\<rceil>"
      by simp
    moreover have "ordinalLoop labels (Fin x) (Fin s) tickLabels
                   = ordinalLoop labels (Fin (x + s)) (Fin s) (tickLabels @ [labels ! indexOf (Fin x)])"
      using lt adv by (subst ordinalLoop.simps) simp
    ultimately show ?thesis using r(1) by simp
  qed
qed

text \<open>With the step 1 the loop copies the rest of the labels.\<close>

lemma ordinalLoop_step_one:
  "ordinalLoop labels (Fin (real n)) (Fin 1) acc = Some (acc @ drop n labels)"
proof (induction "length labels - n" arbitrary: n acc)
  case 0
  then show ?case by (subst ordinalLoop.simps) simp
next
  case (Suc d)
  then have n: "n < length labels" by simp
  have d: "d = length labels - Suc n" using Suc(2) by simp
  have nxt: "js_add (Fin (real n)) (Fin 1) = Fin (real (Suc n))" by (simp add: add.commute)
  have "ordinalLoop labels (Fin (real n)) (Fin 1) acc
        = ordinalLoop labels (Fin (real (Suc n))) (Fin 1) (acc @ [labels ! n])"
    using n by (subst ordinalLoop.simps) (simp add: loopAdvances_def add.commute)
  also have "\<dots> = Some ((acc @ [labels ! n]) @ drop (Suc n) labels)"
    by (rule Suc(1) [OF d])
  also have "(acc @ [labels ! n]) @ drop (Suc n) labels = acc @ drop n labels"
    using n by (simp add: Cons_nth_drop_Suc)
  finally show ?case .
qed

text \<open>With the step \<open>NaN\<close> the loop takes the first label and stops.\<close>

lemma ordinalLoop_nan_step:
  "ordinalLoop labels (Fin 0) NaN [] = Some (take 1 labels)"
proof (cases labels)
  case Nil
  then show ?thesis by (subst ordinalLoop.simps) simp
next
  case (Cons a rest)
  then have "ordinalLoop labels (Fin 0) NaN [] = ordinalLoop labels NaN NaN [a]"
    by (subst ordinalLoop.simps) (simp add: loopAdvances_def)
  also have "\<dots> = Some [a]" by (subst ordinalLoop.simps) simp
  finally show ?thesis using Cons by simp
qed


text \<open>The number of strides of width \<open>floor(len / m)\<close> through \<open>len\<close> labels.\<close>

lemma stride_count_real:
  fixes m :: real and len :: nat
  assumes "0 < m" "m \<le> real len"
  shows "1 \<le> \<lfloor>real len / m\<rfloor>"
    and "real_of_int \<lceil>real len / real_of_int \<lfloor>real len / m\<rfloor>\<rceil> < 2 * m + 1"
    and "\<lceil>real len / real_of_int \<lfloor>real len / m\<rfloor>\<rceil> \<le> int len"
proof -
  define k where "k = \<lfloor>real len / m\<rfloor>"
  have q1: "1 \<le> real len / m" using assms by simp
  then show k1: "1 \<le> \<lfloor>real len / m\<rfloor>" by linarith
  then have kpos: "0 < real_of_int k" "1 \<le> real_of_int k" unfolding k_def by simp_all
  have "real len / m < real_of_int k + 1" unfolding k_def by linarith
  also have "\<dots> \<le> 2 * real_of_int k" using kpos by simp
  finally have "real len < 2 * real_of_int k * m" using assms(1) by (simp add: field_simps)
  then have "real len / real_of_int k < 2 * m" using kpos by (simp add: field_simps)
  moreover have "real_of_int \<lceil>real len / real_of_int k\<rceil> < real len / real_of_int k + 1"
    by linarith
  ultimately show "real_of_int \<lceil>real len / real_of_int \<lfloor>real len / m\<rfloor>\<rceil> < 2 * m + 1"
    unfolding k_def by simp
  have "1 * real len \<le> real_of_int k * real len" using kpos(2) by (intro mult_right_mono) simp_all
  then have "real len / real_of_int k \<le> real len" using kpos(1) by (simp add: field_simps)
  then have "real len / real_of_int k \<le> real_of_int (int len)" by simp
  then have "\<lceil>real len / real_of_int k\<rceil> \<le> int len" by (simp only: ceiling_le_iff)
  then show "\<lceil>real len / real_of_int \<lfloor>real len / m\<rfloor>\<rceil> \<le> int len" unfolding k_def .
qed

lemma stride_count_int:
  fixes z :: int and len :: nat
  assumes "0 < z" "real_of_int z \<le> real len"
  shows "\<lceil>real len / real_of_int \<lfloor>real len / real_of_int z\<rfloor>\<rceil> \<le> 2 * z - 1"
proof -
  define k where "k = int len div z"
  have kf: "\<lfloor>real len / real_of_int z\<rfloor> = k"
    unfolding k_def by (metis floor_divide_of_int_eq of_int_of_nat_eq)
  have zl: "z \<le> int len" using assms(2) by linarith
  have "z div z \<le> int len div z" using zl assms(1) by (intro zdiv_mono1) simp_all
  then have k1: "1 \<le> k" using assms(1) unfolding k_def by simp
  have "int len = k * z + int len mod z" unfolding k_def by simp
  moreover have "int len mod z < z" using assms(1) by simp
  ultimately have len: "int len \<le> k * z + z - 1" by linarith
  have "0 \<le> (z - 1) * (k - 1)" using assms(1) k1 by simp
  then have "z + k \<le> z * k + 1" by (simp add: algebra_simps)
  with len have "int len \<le> (2 * z - 1) * k" by (simp add: algebra_simps)
  then have "real_of_int (int len) \<le> real_of_int ((2 * z - 1) * k)" by (simp only: of_int_le_iff)
  then have "real len \<le> real_of_int (2 * z - 1) * real_of_int k" by simp
  then have "real len / real_of_int k \<le> real_of_int (2 * z - 1)"
    using k1 by (simp add: field_simps)
  then have "\<lceil>real len / real_of_int k\<rceil> \<le> 2 * z - 1" by (simp only: ceiling_le_iff)
  then show ?thesis unfolding kf .
qed


lemma ordinal_count_stride:
  assumes "0 < m" "m \<le> real (length labels)"
  shows "\<exists>r. getRecommendedTickValuesForAnOrdinalRange (Fin m) labels = Some r
           \<and> length r \<le> length labels
           \<and> real (length r) < 2 * m + 1
           \<and> (\<forall>z. m = real_of_int z \<longrightarrow> int (length r) \<le> 2 * z - 1)"
proof -
  let ?len = "real (length labels)"
  let ?k = "\<lfloor>?len / m\<rfloor>"
  have k1: "1 \<le> ?k" using assms by (rule stride_count_real(1))
  then have kpos: "0 < real_of_int ?k" by simp
  from ordinalLoop_finite [OF kpos, of labels 0 "[]"]
  obtain r where r: "ordinalLoop labels (Fin 0) (Fin (real_of_int ?k)) [] = Some r"
    "int (length r) = max 0 \<lceil>?len / real_of_int ?k\<rceil>"
    by auto
  have "0 \<le> ?len / real_of_int ?k" using kpos by simp
  then have nonneg: "0 \<le> \<lceil>?len / real_of_int ?k\<rceil>" by linarith
  with r(2) have len_r: "int (length r) = \<lceil>?len / real_of_int ?k\<rceil>" by simp
  have "getRecommendedTickValuesForAnOrdinalRange (Fin m) labels
        = ordinalLoop labels (Fin 0) (Fin (real_of_int ?k)) []"
    using assms by (simp add: getRecommendedTickValuesForAnOrdinalRange_def js_le_def)
  with r(1) have res: "getRecommendedTickValuesForAnOrdinalRange (Fin m) labels = Some r" by simp
  have b1: "int (length r) \<le> int (length labels)"
    unfolding len_r using assms by (rule stride_count_real(3))
  have "real_of_int (int (length r)) < 2 * m + 1"
    unfolding len_r using assms by (rule stride_count_real(2))
  then have b2: "real (length r) < 2 * m + 1" by simp
  have b3: "\<forall>z. m = real_of_int z \<longrightarrow> int (length r) \<le> 2 * z - 1"
  proof (intro allI impI)
    fix z assume mz: "m = real_of_int z"
    with assms have "0 < z" "real_of_int z \<le> ?len" by simp_all
    then show "int (length r) \<le> 2 * z - 1"
      unfolding len_r mz by (rule stride_count_int)
  qed
  from res b1 b2 b3 show ?thesis by simp
qed

lemma ordinal_count:
  "\<exists>r. getRecommendedTickValuesForAnOrdinalRange maxTicks labels = Some r
       \<and> length r \<le> length labels
       \<and> (js_le maxTicks (Fin 0) \<longrightarrow> r = [])
       \<and> (isNaN maxTicks \<longrightarrow> length r \<le> 1)
       \<and> (\<forall>m. maxTicks = Fin m \<and> 0 < m \<longrightarrow> real (length r) < 2 * m + 1)
       \<and> (\<forall>z. maxTicks = Fin (real_of_int z) \<and> 0 < z \<longrightarrow> int (length r) \<le> 2 * z - 1)"
proof (cases maxTicks)
  case NaN
  then show ?thesis
    by (simp add: getRecommendedTickValuesForAnOrdinalRange_def js_le_def ordinalLoop_nan_step)
next
  case NegInf
  then show ?thesis by (simp add: getRecommendedTickValuesForAnOrdinalRange_def js_le_def)
next
  case PosInf
  then show ?thesis by (simp add: getRecommendedTickValuesForAnOrdinalRange_def js_le_def)
next
  case (Fin m)
  consider (none) "m \<le> 0" | (all) "0 < m" "real (length labels) < m"
    | (stride) "0 < m" "m \<le> real (length labels)" by linarith
  then show ?thesis
  proof cases
    case none
    with Fin show ?thesis
      by (auto simp add: getRecommendedTickValuesForAnOrdinalRange_def js_le_def)
  next
    case all
    then have res: "getRecommendedTickValuesForAnOrdinalRange (Fin m) labels = Some labels"
      by (simp add: getRecommendedTickValuesForAnOrdinalRange_def js_le_def)
    have "\<forall>z. m = real_of_int z \<longrightarrow> int (length labels) \<le> 2 * z - 1"
    proof (intro allI impI)
      fix z assume "m = real_of_int z"
      with all(2) have "real_of_int (int (length labels)) < real_of_int z" by simp
      then have "int (length labels) < z" by (simp only: of_int_less_iff)
      then show "int (length labels) \<le> 2 * z - 1" by simp
    qed
    with res all Fin show ?thesis by (simp add: js_le_def)
  next
    case stride
    from ordinal_count_stride [OF stride]
    obtain r where "getRecommendedTickValuesForAnOrdinalRange (Fin m) labels = Some r"
      "length r \<le> length labels" "real (length r) < 2 * m + 1"
      "\<forall>z. m = real_of_int z \<longrightarrow> int (length r) \<le> 2 * z - 1"
      by blast
    with Fin stride show ?thesis by (simp add: js_le_def)
  qed
qed

text \<open>
  C7: with a positive \<open>maxTickCount\<close> and no more labels than that, the ordinal tick
  values are the labels themselves, in their order.
\<close>

theorem ordinal_ticks_roundtrip:
  assumes "js_lt (Fin 0) maxTickCount"
    and "js_le (Fin (real (length labels))) maxTickCount"
  shows "getRecommendedTickValuesForAnOrdinalRange maxTickCount labels = Some labels"
proof (cases "js_lt (Fin (real (length labels))) maxTickCount")
  case True
  moreover from assms(1) have "\<not> js_le maxTickCount (Fin 0)"
    by (cases maxTickCount) (simp_all add: js_le_def)
  ultimately show ?thesis by (simp add: getRecommendedTickValuesForAnOrdinalRange_def)
next
  case False
  with assms(2) have eq: "maxTickCount = Fin (real (length labels))"
    by (cases maxTickCount) (simp_all add: js_le_def)
  with assms(1) have pos: "0 < length labels" by simp
  then have "js_floor (js_div (Fin (real (length labels))) (Fin (real (length labels)))) = Fin 1"
    by simp
  with pos eq show ?thesis
    using ordinalLoop_step_one [of labels 0 "[]"]
    by (simp add: getRecommendedTickValuesForAnOrdinalRange_def js_le_def)
qed

theorem ordinal_ticks_roundtrip_witness:
  "js_lt (Fin 0) (Fin 3) \<and> js_le (Fin (real (length [''Apple'', ''Orange'', ''Kiwi'']))) (Fin 3)
   \<and> getRecommendedTickValuesForAnOrdinalRange (Fin 3) [''Apple'', ''Orange'', ''Kiwi'']
       = Some [''Apple'', ''Orange'', ''Kiwi'']"
  using ordinal_ticks_roundtrip [of "Fin 3" "[''Apple'', ''Orange'', ''Kiwi'']"]
  by (simp add: js_le_def)

section \<open>Properties of the tick selection\<close>

lemma length_createTrueZeroTickLabel [simp]:
  "length (createTrueZeroTickLabel ticks epsilon) = length ticks"
  by (simp add: createTrueZeroTickLabel_def Let_def)

lemma length_spliceLoop: "length (spliceLoop i xs) \<le> length xs"
proof (induction i xs rule: spliceLoop.induct)
  case (1 i tickLabels)
  show ?case
  proof (cases "i < length tickLabels")
    case True
    with 1 have "length (spliceLoop (i + 1) (take i tickLabels @ drop (i + 1) tickLabels))
                 \<le> length (take i tickLabels @ drop (i + 1) tickLabels)" by simp
    also have "\<dots> \<le> length tickLabels" by simp
    finally show ?thesis using True by (subst spliceLoop.simps) simp
  next
    case False
    then show ?thesis by (subst spliceLoop.simps) simp
  qed
qed

lemma length_trimLoop: "length (trimLoop tickInterval minInterval xs) \<le> length xs"
proof (induction tickInterval minInterval xs rule: trimLoop.induct)
  case (1 tickInterval minInterval tickLabels)
  show ?case
  proof (cases "tickInterval > 0 \<and> tickInterval < minInterval")
    case True
    with 1 have "length (trimLoop (tickInterval * 2) minInterval (spliceLoop 1 tickLabels))
                 \<le> length (spliceLoop 1 tickLabels)" by simp
    also have "\<dots> \<le> length tickLabels" by (rule length_spliceLoop)
    finally show ?thesis using True by (subst trimLoop.simps) auto
  next
    case False
    then show ?thesis by (subst trimLoop.simps) auto
  qed
qed

lemma length_enforceMinInterval: "length (enforceMinInterval minInterval xs) \<le> length xs"
proof (cases minInterval)
  case None
  then show ?thesis by (simp add: enforceMinInterval_def)
next
  case (Some m)
  show ?thesis
  proof (cases "m \<noteq> 0 \<and> length xs > 1")
    case True
    have "length (trimLoop (xs ! 1 - xs ! 0) m xs) \<le> length xs" by (rule length_trimLoop)
    with True Some show ?thesis by (auto simp add: enforceMinInterval_def Let_def)
  next
    case False
    with Some show ?thesis by (auto simp add: enforceMinInterval_def)
  qed
qed

lemma length_requestTicks:
  "length (requestTicks ticks maxTicks)
   \<le> max (length (ticks (js_sub maxTicks (Fin 1))))
         (max (length (ticks maxTicks)) (length (ticks (js_add maxTicks (Fin 1)))))"
  by (auto simp add: requestTicks_def Let_def)

lemma quantitative_count:
  "length (getRecommendedTickValuesForAQuantitativeRange maxTicks (Some ticks) minInterval)
   \<le> max (length (ticks (js_sub maxTicks (Fin 1))))
         (max (length (ticks maxTicks)) (length (ticks (js_add maxTicks (Fin 1)))))"
proof (cases "js_eq maxTicks (Fin 0)")
  case True
  then show ?thesis by (simp add: getRecommendedTickValuesForAQuantitativeRange_def)
next
  case False
  have "length (enforceMinInterval minInterval
                  (createTrueZeroTickLabel (requestTicks ticks maxTicks) (1 / 100000)))
        \<le> length (createTrueZeroTickLabel (requestTicks ticks maxTicks) (1 / 100000))"
    by (rule length_enforceMinInterval)
  also have "\<dots> = length (requestTicks ticks maxTicks)" by simp
  also note length_requestTicks
  finally show ?thesis
    using False by (simp add: getRecommendedTickValuesForAQuantitativeRange_def)
qed

lemma length_ensureValuesInRange:
  "2 \<le> length (ensureValuesInRange values mn mx)"
  "length (ensureValuesInRange values mn mx) \<le> max 2 (length values)"
proof -
  let ?f = "filter (\<lambda>v. v \<ge> mn \<and> v \<le> mx) values"
  have le: "length ?f \<le> length values" by (rule length_filter_le)
  have res: "ensureValuesInRange values mn mx = (if length ?f < 2 then [mn, mx] else ?f)"
    by (simp add: ensureValuesInRange_def Let_def)
  show "2 \<le> length (ensureValuesInRange values mn mx)"
    unfolding res by simp
  show "length (ensureValuesInRange values mn mx) \<le> max 2 (length values)"
    unfolding res using le by (cases "length ?f < 2") (simp_all add: le_max_iff_disj)
qed

lemma dateTime_count:
  "2 \<le> length (getRecommendedTickValuesForADateTimeRange calculate maxTicks dataDomain)"
  "length (getRecommendedTickValuesForADateTimeRange calculate maxTicks dataDomain)
   \<le> max 2 (length (calculate (fst dataDomain) (snd dataDomain) maxTicks))"
  unfolding getRecommendedTickValuesForADateTimeRange_def Let_def
  by (rule length_ensureValuesInRange)+

text \<open>
  C2, as stated: no tick selection returns more than \<open>maxTickCount + 1\<close> values. Each of
  the three selectors fails this. The ordinal one, with six ticks allowed and ten
  labels, has the step \<open>floor(10 / 6) = 1\<close> and returns all ten labels. The quantitative
  one, with eight ticks allowed and a generator that answers ten values to every
  request, retries at seven and returns the ten values. The date-time one, with no
  tick allowed and no date generated, returns the two bounds of the domain.
\<close>

theorem tick_selection_exceeds_bound:
  "getRecommendedTickValuesForAnOrdinalRange (Fin 6)
     [''a'', ''b'', ''c'', ''d'', ''e'', ''f'', ''g'', ''h'', ''i'', ''j'']
   = Some [''a'', ''b'', ''c'', ''d'', ''e'', ''f'', ''g'', ''h'', ''i'', ''j'']
   \<and> \<not> length [''a'', ''b'', ''c'', ''d'', ''e'', ''f'', ''g'', ''h'', ''i'', ''j''] \<le> 6 + 1
   \<and> getRecommendedTickValuesForAQuantitativeRange (Fin 8) (Some tenTicks) None
       = [0, 10, 20, 30, 40, 50, 60, 70, 80, 90]
   \<and> \<not> length [0, 10, 20, 30, 40, 50, 60, 70, 80, 90 :: real] \<le> 8 + 1
   \<and> getRecommendedTickValuesForADateTimeRange noDates (Fin 0) (1000, 2000) = [1000, 2000]
   \<and> \<not> length [1000, 2000 :: real] \<le> 0 + 1"
proof -
  have "js_floor (js_div (Fin (real (length
          [''a'', ''b'', ''c'', ''d'', ''e'', ''f'', ''g'', ''h'', ''i'', ''j'']))) (Fin 6)) = Fin 1"
    by simp
  then have o: "getRecommendedTickValuesForAnOrdinalRange (Fin 6)
     [''a'', ''b'', ''c'', ''d'', ''e'', ''f'', ''g'', ''h'', ''i'', ''j'']
   = Some [''a'', ''b'', ''c'', ''d'', ''e'', ''f'', ''g'', ''h'', ''i'', ''j'']"
    using ordinalLoop_step_one
            [of "[''a'', ''b'', ''c'', ''d'', ''e'', ''f'', ''g'', ''h'', ''i'', ''j'']" 0 "[]"]
    by (simp add: getRecommendedTickValuesForAnOrdinalRange_def js_le_def)
  have q: "getRecommendedTickValuesForAQuantitativeRange (Fin 8) (Some tenTicks) None
       = [0, 10, 20, 30, 40, 50, 60, 70, 80, 90]"
    by (simp add: getRecommendedTickValuesForAQuantitativeRange_def requestTicks_def
          MinTickCount_def tenTicks_def enforceMinInterval_def createTrueZeroTickLabel_def)
  have d: "getRecommendedTickValuesForADateTimeRange noDates (Fin 0) (1000, 2000) = [1000, 2000]"
    by (simp add: getRecommendedTickValuesForADateTimeRange_def ensureValuesInRange_def
          noDates_def)
  from o q d show ?thesis by simp
qed


text \<open>
  C2, amended. The ordinal selection returns, for every number \<open>maxTicks\<close> and every
  label list, never more labels than it is given: none when \<open>maxTicks \<le> 0\<close>, at most one
  when \<open>maxTicks\<close> is \<open>NaN\<close>, fewer than \<open>2 maxTicks + 1\<close> when \<open>maxTicks\<close> is positive and
  at most \<open>2 maxTicks - 1\<close> when it is a positive whole number. The quantitative
  selection returns no more values than the longest of the three lists that the
  scale's generator yields at \<open>maxTicks - 1\<close>, \<open>maxTicks\<close> and \<open>maxTicks + 1\<close>, and none
  when \<open>maxTicks\<close> is 0. The date-time selection returns at least two values and no more
  than the generated dates, or two. \<open>getRecommendedTickValues\<close> returns the result of the
  ordinal selection for an ordinal scale or an axis that is not scalar, of the
  date-time selection for a scalar date-time axis, and of the quantitative selection
  otherwise.
\<close>

theorem tick_count_bound_amended:
  "(\<exists>r. getRecommendedTickValuesForAnOrdinalRange maxTicks labels = Some r
        \<and> length r \<le> length labels
        \<and> (js_le maxTicks (Fin 0) \<longrightarrow> r = [])
        \<and> (isNaN maxTicks \<longrightarrow> length r \<le> 1)
        \<and> (\<forall>m. maxTicks = Fin m \<and> 0 < m \<longrightarrow> real (length r) < 2 * m + 1)
        \<and> (\<forall>z. maxTicks = Fin (real_of_int z) \<and> 0 < z \<longrightarrow> int (length r) \<le> 2 * z - 1))
   \<and> length (getRecommendedTickValuesForAQuantitativeRange maxTicks (Some ticks) minInterval)
       \<le> max (length (ticks (js_sub maxTicks (Fin 1))))
             (max (length (ticks maxTicks)) (length (ticks (js_add maxTicks (Fin 1)))))
   \<and> (js_eq maxTicks (Fin 0) \<longrightarrow>
        getRecommendedTickValuesForAQuantitativeRange maxTicks scaleTicks minInterval = [])
   \<and> 2 \<le> length (getRecommendedTickValuesForADateTimeRange calculate maxTicks dataDomain)
   \<and> length (getRecommendedTickValuesForADateTimeRange calculate maxTicks dataDomain)
       \<le> max 2 (length (calculate (fst dataDomain) (snd dataDomain) maxTicks))
   \<and> isOrdinalScale (OrdinalScale labels)
   \<and> getRecommendedTickValues calculate maxTicks (OrdinalScale labels) axisType isScalar
         minInterval
       = map_option (map Label) (getRecommendedTickValuesForAnOrdinalRange maxTicks labels)
   \<and> \<not> isOrdinalScale (QuantitativeScale dataDomain scaleTicks)
   \<and> (\<not> isScalar \<longrightarrow>
        getRecommendedTickValues calculate maxTicks (QuantitativeScale dataDomain scaleTicks)
          axisType isScalar minInterval
        = map_option (map Value)
            (getRecommendedTickValuesForAnOrdinalRange maxTicks
               [fst dataDomain, snd dataDomain]))
   \<and> (isScalar \<and> isDateTimeType axisType \<longrightarrow>
        getRecommendedTickValues calculate maxTicks (QuantitativeScale dataDomain scaleTicks)
          axisType isScalar minInterval
        = Some (map Value
            (getRecommendedTickValuesForADateTimeRange calculate maxTicks dataDomain)))
   \<and> (isScalar \<and> \<not> isDateTimeType axisType \<longrightarrow>
        getRecommendedTickValues calculate maxTicks (QuantitativeScale dataDomain scaleTicks)
          axisType isScalar minInterval
        = Some (map Value
            (getRecommendedTickValuesForAQuantitativeRange maxTicks scaleTicks minInterval)))"
proof (intro conjI)
  show "\<exists>r. getRecommendedTickValuesForAnOrdinalRange maxTicks labels = Some r
          \<and> length r \<le> length labels
          \<and> (js_le maxTicks (Fin 0) \<longrightarrow> r = [])
          \<and> (isNaN maxTicks \<longrightarrow> length r \<le> 1)
          \<and> (\<forall>m. maxTicks = Fin m \<and> 0 < m \<longrightarrow> real (length r) < 2 * m + 1)
          \<and> (\<forall>z. maxTicks = Fin (real_of_int z) \<and> 0 < z \<longrightarrow> int (length r) \<le> 2 * z - 1)"
    by (rule ordinal_count)
  show "length (getRecommendedTickValuesForAQuantitativeRange maxTicks (Some ticks) minInterval)
        \<le> max (length (ticks (js_sub maxTicks (Fin 1))))
              (max (length (ticks maxTicks)) (length (ticks (js_add maxTicks (Fin 1)))))"
    by (rule quantitative_count)
  show "js_eq maxTicks (Fin 0) \<longrightarrow>
        getRecommendedTickValuesForAQuantitativeRange maxTicks scaleTicks minInterval = []"
    by (simp add: getRecommendedTickValuesForAQuantitativeRange_def)
  show "2 \<le> length (getRecommendedTickValuesForADateTimeRange calculate maxTicks dataDomain)"
    by (rule dateTime_count)
  show "length (getRecommendedTickValuesForADateTimeRange calculate maxTicks dataDomain)
        \<le> max 2 (length (calculate (fst dataDomain) (snd dataDomain) maxTicks))"
    by (rule dateTime_count)
qed simp_all

theorem tick_count_bound_amended_witness:
  "\<exists>r. getRecommendedTickValuesForAnOrdinalRange (Fin 5.2)
          [''a'', ''b'', ''c'', ''d'', ''e'', ''f'', ''g'', ''h'', ''i'', ''j''] = Some r
       \<and> length r \<le> 10 \<and> real (length r) < 2 * 5.2 + 1"
proof -
  from tick_count_bound_amended
         [where maxTicks = "Fin 5.2"
            and labels = "[''a'', ''b'', ''c'', ''d'', ''e'', ''f'', ''g'', ''h'', ''i'', ''j'']"]
  obtain r where r: "getRecommendedTickValuesForAnOrdinalRange (Fin 5.2)
          [''a'', ''b'', ''c'', ''d'', ''e'', ''f'', ''g'', ''h'', ''i'', ''j''] = Some r"
    "length r \<le> length [''a'', ''b'', ''c'', ''d'', ''e'', ''f'', ''g'', ''h'', ''i'', ''j'']"
    "\<forall>m. Fin 5.2 = Fin m \<and> 0 < m \<longrightarrow> real (length r) < 2 * m + 1"
    by blast
  from r(3) have "Fin 5.2 = Fin 5.2 \<and> (0::real) < 5.2 \<longrightarrow> real (length r) < 2 * 5.2 + 1"
    by (rule spec)
  then have "real (length r) < 2 * 5.2 + 1" by simp
  with r(1,2) show ?thesis by simp
qed

text \<open>
  C8: for a count that is not 0, when the generator yields more than \<open>maxTicks\<close> values
  at \<open>maxTicks\<close> and \<open>maxTicks > 1\<close>, the values are taken from the generator at
  \<open>maxTicks - 1\<close>; when the list chosen so far has fewer than 2 values, they are taken
  from the generator at \<open>maxTicks + 1\<close>; otherwise the first list is kept. The zero
  snapping and the minimum interval are applied to the list so chosen.
\<close>

theorem quantitative_retry:
  assumes "\<not> js_eq maxTicks (Fin 0)"
  shows "(js_lt maxTicks (Fin (real (length (ticks maxTicks)))) \<and> js_lt (Fin 1) maxTicks
            \<and> \<not> length (ticks (js_sub maxTicks (Fin 1))) < 2 \<longrightarrow>
          getRecommendedTickValuesForAQuantitativeRange maxTicks (Some ticks) minInterval
            = enforceMinInterval minInterval
                (createTrueZeroTickLabel (ticks (js_sub maxTicks (Fin 1))) (1 / 100000)))
       \<and> (js_lt maxTicks (Fin (real (length (ticks maxTicks)))) \<and> js_lt (Fin 1) maxTicks
            \<and> length (ticks (js_sub maxTicks (Fin 1))) < 2 \<longrightarrow>
          getRecommendedTickValuesForAQuantitativeRange maxTicks (Some ticks) minInterval
            = enforceMinInterval minInterval
                (createTrueZeroTickLabel (ticks (js_add maxTicks (Fin 1))) (1 / 100000)))
       \<and> (\<not> (js_lt maxTicks (Fin (real (length (ticks maxTicks)))) \<and> js_lt (Fin 1) maxTicks)
            \<and> length (ticks maxTicks) < 2 \<longrightarrow>
          getRecommendedTickValuesForAQuantitativeRange maxTicks (Some ticks) minInterval
            = enforceMinInterval minInterval
                (createTrueZeroTickLabel (ticks (js_add maxTicks (Fin 1))) (1 / 100000)))
       \<and> (\<not> (js_lt maxTicks (Fin (real (length (ticks maxTicks)))) \<and> js_lt (Fin 1) maxTicks)
            \<and> \<not> length (ticks maxTicks) < 2 \<longrightarrow>
          getRecommendedTickValuesForAQuantitativeRange maxTicks (Some ticks) minInterval
            = enforceMinInterval minInterval
                (createTrueZeroTickLabel (ticks maxTicks) (1 / 100000)))"
  using assms
  by (simp add: getRecommendedTickValuesForAQuantitativeRange_def requestTicks_def
        MinTickCount_def Let_def)

theorem quantitative_retry_witness:
  "\<not> js_eq (Fin 5) (Fin 0) \<and> js_lt (Fin 5) (Fin (real (length (scenarioTicks (Fin 5)))))
   \<and> js_lt (Fin 1) (Fin 5)
   \<and> \<not> length (scenarioTicks (js_sub (Fin 5) (Fin 1))) < 2
   \<and> getRecommendedTickValuesForAQuantitativeRange (Fin 5) (Some scenarioTicks) None
       = [0, 25, 50, 75, 100]"
  using quantitative_retry [of "Fin 5" scenarioTicks None]
  by (simp add: scenarioTicks_def enforceMinInterval_def createTrueZeroTickLabel_def js_sub_def)


section \<open>Properties of the tailored text\<close>

lemma truncHalf_between: "mn \<le> mx \<Longrightarrow> mn \<le> truncHalf (mn + mx) \<and> truncHalf (mn + mx) \<le> mx"
  by (auto simp: truncHalf_def)

lemma length_substr0: "length (substr s 0 j) = min (nat j) (length s)"
  by (simp add: substr_def)

lemma measure_prefix_mono:
  assumes "monotonicInLength canvasCtx" "j \<le> k"
  shows "measureSvgTextWidth canvasCtx (properties\<lparr>text_val := substr textWithDots 0 j\<rparr>)
         \<le> measureSvgTextWidth canvasCtx (properties\<lparr>text_val := substr textWithDots 0 k\<rparr>)"
proof -
  have "length (substr textWithDots 0 j) \<le> length (substr textWithDots 0 k)"
    using assms(2) by (simp add: length_substr0)
  with assms(1) show ?thesis
    by (simp add: measureSvgTextWidth_def monotonicInLength_def)
qed

lemma tailorSearch_result:
  assumes "monotonicInLength canvasCtx"
    and "\<forall>j. 1 \<le> j \<and> j < mn \<longrightarrow>
           measureSvgTextWidth canvasCtx (properties\<lparr>text_val := substr textWithDots 0 j\<rparr>) < maxWidth"
    and "mx < mn \<longrightarrow>
           measureSvgTextWidth canvasCtx (properties\<lparr>text_val := substr textWithDots 0 i\<rparr>) \<le> maxWidth
           \<or> i - 1 < mn"
  shows "measureSvgTextWidth canvasCtx
           (properties\<lparr>text_val := substr textWithDots 0 (tailorSearch canvasCtx properties textWithDots maxWidth mn mx i)\<rparr>)
           \<le> maxWidth
         \<or> tailorSearch canvasCtx properties textWithDots maxWidth mn mx i - 1 < 1
         \<or> measureSvgTextWidth canvasCtx
           (properties\<lparr>text_val := substr textWithDots 0 (tailorSearch canvasCtx properties textWithDots maxWidth mn mx i - 1)\<rparr>)
           < maxWidth"
  using assms
proof (induction canvasCtx properties textWithDots maxWidth mn mx i rule: tailorSearch.induct)
  case (1 canvasCtx properties textWithDots maxWidth mn mx i)
  let ?W = "\<lambda>j. measureSvgTextWidth canvasCtx (properties\<lparr>text_val := substr textWithDots 0 j\<rparr>)"
  let ?p = "truncHalf (mn + mx)"
  show ?case
  proof (cases "mn \<le> mx")
    case False
    then have res: "tailorSearch canvasCtx properties textWithDots maxWidth mn mx i = i"
      by (subst tailorSearch.simps) simp
    from False 1(5) have "?W i \<le> maxWidth \<or> i - 1 < mn" by simp
    then show ?thesis
    proof
      assume "?W i \<le> maxWidth"
      then show ?thesis unfolding res by simp
    next
      assume lt: "i - 1 < mn"
      show ?thesis
      proof (cases "i - 1 < 1")
        case True
        then show ?thesis unfolding res by simp
      next
        case False
        with lt 1(4) have "?W (i - 1) < maxWidth" by simp
        then show ?thesis unfolding res by simp
      qed
    qed
  next
    case True
    note le = this
    have between: "mn \<le> ?p" "?p \<le> mx" using truncHalf_between [OF le] by simp_all
    consider (up) "maxWidth > ?W ?p" | (down) "\<not> maxWidth > ?W ?p" "maxWidth < ?W ?p"
      | (hit) "?W ?p = maxWidth" by fastforce
    then show ?thesis
    proof cases
      case up
      then have res: "tailorSearch canvasCtx properties textWithDots maxWidth mn mx i
                      = tailorSearch canvasCtx properties textWithDots maxWidth (?p + 1) mx ?p"
        using le by (subst tailorSearch.simps) simp
      have b: "\<forall>j. 1 \<le> j \<and> j < ?p + 1 \<longrightarrow> ?W j < maxWidth"
      proof (intro allI impI)
        fix j assume "1 \<le> j \<and> j < ?p + 1"
        then have "j \<le> ?p" by simp
        then have "?W j \<le> ?W ?p" by (rule measure_prefix_mono [OF 1(3)])
        with up show "?W j < maxWidth" by simp
      qed
      have c: "mx < ?p + 1 \<longrightarrow> ?W ?p \<le> maxWidth \<or> ?p - 1 < ?p + 1" using up by simp
      show ?thesis unfolding res by (rule 1(1) [OF le up 1(3) b c])
    next
      case down
      then have res: "tailorSearch canvasCtx properties textWithDots maxWidth mn mx i
                      = tailorSearch canvasCtx properties textWithDots maxWidth mn (?p - 1) ?p"
        using le by (subst tailorSearch.simps) simp
      have c: "?p - 1 < mn \<longrightarrow> ?W ?p \<le> maxWidth \<or> ?p - 1 < mn" by simp
      show ?thesis unfolding res by (rule 1(2) [OF le down 1(3) 1(4) c])
    next
      case hit
      then have res: "tailorSearch canvasCtx properties textWithDots maxWidth mn mx i = ?p"
        using le by (subst tailorSearch.simps) simp
      show ?thesis unfolding res using hit by simp
    qed
  qed
qed


lemma measure_by_length:
  assumes "monotonicInLength canvasCtx" "length s \<le> length t"
  shows "measureSvgTextWidth canvasCtx (properties\<lparr>text_val := s\<rparr>)
         \<le> measureSvgTextWidth canvasCtx (properties\<lparr>text_val := t\<rparr>)"
  using assms by (simp add: measureSvgTextWidth_def monotonicInLength_def)

lemma tailored_length:
  "3 \<le> i \<Longrightarrow> length (substr (''...'' @ s) 3 (i - 3) @ ''...'') \<le> length (substr (''...'' @ s) 0 i)"
  by (simp add: substr_def)

lemma tailored_short: "i < 3 \<Longrightarrow> substr (''...'' @ s) 3 (i - 3) @ ''...'' = ''...''"
  by (simp add: substr_def)

text \<open>The two scenarios with ten pixels per character.\<close>

lemma ten_mono: "monotonicInLength tenPixelsPerChar"
  by (simp add: monotonicInLength_def tenPixelsPerChar_def)

lemma search_width_50:
  "tailorSearch tenPixelsPerChar helloWorld ''...Hello World'' 50 1 14 3 = 5"
  by (simp add: tailorSearch.simps truncHalf_def measureSvgTextWidth_def tenPixelsPerChar_def
        substr_def helloWorld_def)

lemma search_width_20:
  "tailorSearch tenPixelsPerChar helloWorld ''...Hello World'' 20 1 14 3 = 2"
  by (simp add: tailorSearch.simps truncHalf_def measureSvgTextWidth_def tenPixelsPerChar_def
        substr_def helloWorld_def)

lemma helloWorld_with_dots: "''...'' @ text_val helloWorld = ''...Hello World''"
  by (simp add: helloWorld_def)

lemma hello50: "getTailoredTextOrDefault tenPixelsPerChar helloWorld 50 = ''He...''"
  unfolding getTailoredTextOrDefault_def Let_def helloWorld_with_dots
  by (simp add: search_width_50)
     (simp add: helloWorld_def measureSvgTextWidth_def tenPixelsPerChar_def substr_def)

lemma hello20: "getTailoredTextOrDefault tenPixelsPerChar helloWorld 20 = ''...''"
  unfolding getTailoredTextOrDefault_def Let_def helloWorld_with_dots
  by (simp add: search_width_20)
     (simp add: helloWorld_def measureSvgTextWidth_def tenPixelsPerChar_def substr_def)

text \<open>
  C3, as stated: with a measurer that is monotonic in the length, the tailored text
  never measures wider than \<open>maxWidth\<close>. With ten pixels per character and a width of
  20 the text \<open>Hello World\<close> is tailored to the bare ellipsis, which measures 30.
\<close>

theorem tailored_overflow:
  "monotonicInLength tenPixelsPerChar
   \<and> \<not> measureSvgTextWidth tenPixelsPerChar
          (helloWorld\<lparr>text_val := getTailoredTextOrDefault tenPixelsPerChar helloWorld 20\<rparr>) \<le> 20"
  by (simp add: ten_mono hello20) (simp add: measureSvgTextWidth_def tenPixelsPerChar_def)

text \<open>
  C3, amended: with a measurer that is monotonic in the length, and a \<open>maxWidth\<close> that
  is at least the measured width of the ellipsis alone, the tailored text (ellipsis
  included) never measures wider than \<open>maxWidth\<close>.
\<close>

theorem tailored_fits:
  assumes mono: "monotonicInLength canvasCtx"
    and dots: "measureSvgTextWidth canvasCtx (properties\<lparr>text_val := ''...''\<rparr>) \<le> maxWidth"
  shows "measureSvgTextWidth canvasCtx
           (properties\<lparr>text_val := getTailoredTextOrDefault canvasCtx properties maxWidth\<rparr>)
         \<le> maxWidth"
proof -
  let ?M = "\<lambda>s. measureSvgTextWidth canvasCtx (properties\<lparr>text_val := s\<rparr>)"
  let ?t = "''...'' @ text_val properties"
  let ?I = "tailorSearch canvasCtx properties ?t maxWidth 1 (int (length ?t)) 3"
  let ?i = "if ?M (substr ?t 0 ?I) > maxWidth then ?I - 1 else ?I"
  have same: "properties\<lparr>text_val := text_val properties\<rparr> = properties" by simp
  show ?thesis
  proof (cases "length (text_val properties) = 0")
    case True
    then have "getTailoredTextOrDefault canvasCtx properties maxWidth = []"
      by (simp add: getTailoredTextOrDefault_def)
    moreover have "?M [] \<le> ?M ''...''" by (rule measure_by_length [OF mono]) simp
    ultimately show ?thesis using dots by simp
  next
    case nonempty: False
    show ?thesis
    proof (cases "measureSvgTextWidth canvasCtx properties < maxWidth")
      case True
      with nonempty have "getTailoredTextOrDefault canvasCtx properties maxWidth = text_val properties"
        by (simp add: getTailoredTextOrDefault_def)
      with True same show ?thesis by simp
    next
      case False
      with nonempty have res: "getTailoredTextOrDefault canvasCtx properties maxWidth
                      = substr ?t 3 (?i - 3) @ ''...''"
        by (simp add: getTailoredTextOrDefault_def Let_def)
      have search: "?M (substr ?t 0 ?I) \<le> maxWidth \<or> ?I - 1 < 1 \<or> ?M (substr ?t 0 (?I - 1)) < maxWidth"
        by (rule tailorSearch_result [OF mono]) simp_all
      have fit: "?i < 3 \<or> ?M (substr ?t 0 ?i) \<le> maxWidth"
        using search by (cases "?M (substr ?t 0 ?I) > maxWidth") auto
      show ?thesis
      proof (cases "?i < 3")
        case True
        then have "substr ?t 3 (?i - 3) @ ''...'' = ''...''" by (rule tailored_short)
        with res dots show ?thesis by simp
      next
        case ge3: False
        with fit have w: "?M (substr ?t 0 ?i) \<le> maxWidth" by blast
        from ge3 have "length (substr ?t 3 (?i - 3) @ ''...'') \<le> length (substr ?t 0 ?i)"
          by (intro tailored_length) simp
        then have "?M (substr ?t 3 (?i - 3) @ ''...'') \<le> ?M (substr ?t 0 ?i)"
          by (rule measure_by_length [OF mono])
        with w res show ?thesis by simp
      qed
    qed
  qed
qed

theorem tailored_fits_witness:
  "monotonicInLength tenPixelsPerChar
   \<and> measureSvgTextWidth tenPixelsPerChar (helloWorld\<lparr>text_val := ''...''\<rparr>) \<le> 50
   \<and> getTailoredTextOrDefault tenPixelsPerChar helloWorld 50 = ''He...''
   \<and> measureSvgTextWidth tenPixelsPerChar
        (helloWorld\<lparr>text_val := getTailoredTextOrDefault tenPixelsPerChar helloWorld 50\<rparr>) \<le> 50"
proof -
  have d: "measureSvgTextWidth tenPixelsPerChar (helloWorld\<lparr>text_val := ''...''\<rparr>) \<le> 50"
    by (simp add: measureSvgTextWidth_def tenPixelsPerChar_def)
  from tailored_fits [OF ten_mono d] ten_mono d hello50 show ?thesis by simp
qed

end
